theory Spec2Isabelle
  imports Complex_Main
begin

section \<open>Mohr's circle for strain: the component of \<^verbatim>\<open>App.tsx\<close>\<close>

text \<open>
  The React component \<^verbatim>\<open>MohrCircleVisualization\<close> keeps three strain inputs, a sweep
  angle, a play/pause flag and a mutable reference holding the timestamp of the last
  animation frame. Its closures read that state; here every function takes the state it
  reads as an argument and returns the state it writes.

  JavaScript numbers are IEEE doubles. They are taken as real numbers throughout, as the
  specification does: rounding, the two infinities and NaN are outside this development,
  except for the NaN that \<^verbatim>\<open>parseFloat\<close> returns and \<^verbatim>\<open>isNaN\<close> tests, which is the value
  \<open>None\<close> of an option.
\<close>

subsection \<open>Geometry\<close>

text \<open>The state \<^verbatim>\<open>strains\<close>, the result of \<^verbatim>\<open>calculateMohrCircle\<close> and the state
  \<^verbatim>\<open>currentStrains\<close>.\<close>

record strains =
  normalX :: real
  normalY :: real
  shearXY :: real

record circle =
  center :: real
  radius :: real

record current_strains =
  normal :: real
  shear :: real

text \<open>
  \<^verbatim>\<open>
  const calculateMohrCircle = () => {
    const { normalX, normalY, shearXY } = strains;
    const center = (normalX + normalY) / 2;
    const radius = Math.sqrt(Math.pow((normalX - normalY) / 2, 2) + Math.pow(shearXY, 2));
    return { center, radius };
  };
  \<close>
\<close>

definition calculateMohrCircle :: "strains \<Rightarrow> circle" where
  "calculateMohrCircle s =
     \<lparr> center = (normalX s + normalY s) / 2,
       radius = sqrt (((normalX s - normalY s) / 2) ^ 2 + (shearXY s) ^ 2) \<rparr>"

text \<open>
  \<^verbatim>\<open>
  const calculateCurrentStrains = (angle) => {
    const { center, radius } = calculateMohrCircle();
    const normal = center + radius * Math.cos(angle);
    const shear = radius * Math.sin(angle);
    return { normal, shear };
  };
  \<close>
\<close>

definition calculateCurrentStrains :: "strains \<Rightarrow> real \<Rightarrow> current_strains" where
  "calculateCurrentStrains s a =
     (let c = calculateMohrCircle s
      in \<lparr> normal = center c + radius c * cos a,
           shear = radius c * sin a \<rparr>)"

text \<open>The strains the component starts with.\<close>

definition initial_strains :: strains where
  "initial_strains = \<lparr> normalX = 2.0, normalY = 0.2, shearXY = 1.81 / 2 \<rparr>"

subsection \<open>The remainder operator\<close>

text \<open>
  The \<^verbatim>\<open>%\<close> of JavaScript on numbers is the truncating remainder of ECMAScript's
  \<^verbatim>\<open>Number::remainder(n, d)\<close>: with \<open>q\<close> the quotient \<open>n / d\<close> truncated towards zero, the
  result is \<open>n - d * q\<close>, computed exactly. Its sign is the sign of the dividend. A zero
  divisor gives NaN in JavaScript; the only divisor of the component is \<open>2 * pi\<close>.
\<close>

definition trunc :: "real \<Rightarrow> int" where
  "trunc x = (if 0 \<le> x then \<lfloor>x\<rfloor> else \<lceil>x\<rceil>)"

definition js_rem :: "real \<Rightarrow> real \<Rightarrow> real" where
  "js_rem n d = n - d * of_int (trunc (n / d))"

subsection \<open>State of the component\<close>

text \<open>
  The state hooks \<^verbatim>\<open>strains\<close>, \<^verbatim>\<open>angle\<close>, \<^verbatim>\<open>isAnimating\<close>, the reference
  \<^verbatim>\<open>lastUpdateTimeRef\<close>, and whether the frame requested through \<^verbatim>\<open>animationRef\<close> is
  still pending (requested and neither delivered nor cancelled).
\<close>

record component =
  strains :: strains
  angle :: real
  isAnimating :: bool
  lastUpdateTimeRef :: real
  frameRequested :: bool

text \<open>
  \<^verbatim>\<open>
  const [isAnimating, setIsAnimating] = useState(true);
  const [strains, setStrains] = useState({ normalX: 2.0, normalY: 0.2, shearXY: 1.81/2 });
  const [angle, setAngle] = useState(-2.38 * Math.PI / 180);
  const animationRef = useRef(null);
  const lastUpdateTimeRef = useRef(0);
  \<close>
\<close>

definition initial :: component where
  "initial =
     \<lparr> strains = initial_strains,
       angle = - 2.38 * pi / 180,
       isAnimating = True,
       lastUpdateTimeRef = 0,
       frameRequested = False \<rparr>"

subsection \<open>The sweep controller\<close>

text \<open>
  \<^verbatim>\<open>
  const CIRCLE_DURATION = 30000; // 30 seconds for one complete circle
  const ANGLE_PER_MS = (2 * Math.PI) / CIRCLE_DURATION;
  \<close>
\<close>

definition CIRCLE_DURATION :: real where
  "CIRCLE_DURATION = 30000"

definition ANGLE_PER_MS :: real where
  "ANGLE_PER_MS = (2 * pi) / CIRCLE_DURATION"

text \<open>
  \<^verbatim>\<open>
  const animate = (timestamp) => {
    if (!isAnimating) return;
    if (!lastUpdateTimeRef.current) {
      lastUpdateTimeRef.current = timestamp;
    }
    const deltaTime = timestamp - lastUpdateTimeRef.current;
    const angleChange = ANGLE_PER_MS * deltaTime;
    setAngle((prev) => (prev + angleChange) % (2 * Math.PI));
    lastUpdateTimeRef.current = timestamp;
    animationRef.current = requestAnimationFrame(animate);
  };
  \<close>
  The test \<^verbatim>\<open>!lastUpdateTimeRef.current\<close> holds of the number \<open>0\<close>. The closure reads the
  \<^verbatim>\<open>isAnimating\<close> of the render that requested the frame; a frame is pending only while
  the component is animating (\<open>frameRequested_isAnimating\<close> below), so that value is the
  one of the state.
\<close>

definition animate :: "component \<Rightarrow> real \<Rightarrow> component" where
  "animate st timestamp =
     (if \<not> isAnimating st then st
      else
        let last = (if lastUpdateTimeRef st = 0 then timestamp else lastUpdateTimeRef st);
            deltaTime = timestamp - last;
            angleChange = ANGLE_PER_MS * deltaTime
        in st \<lparr> angle := js_rem (angle st + angleChange) (2 * pi),
                lastUpdateTimeRef := timestamp,
                frameRequested := True \<rparr>)"

text \<open>
  \<^verbatim>\<open>
  useEffect(() => {
    if (isAnimating) {
      lastUpdateTimeRef.current = 0;
      animationRef.current = requestAnimationFrame(animate);
    } else {
      cancelAnimationFrame(animationRef.current);
    }
    return () => cancelAnimationFrame(animationRef.current);
  }, [isAnimating]);
  \<close>
  The effect runs after mounting and after every change of \<^verbatim>\<open>isAnimating\<close>; before it
  runs again, its cleanup cancels the pending frame.
\<close>

definition isAnimating_effect :: "component \<Rightarrow> component" where
  "isAnimating_effect st =
     (if isAnimating st
      then st \<lparr> lastUpdateTimeRef := 0, frameRequested := True \<rparr>
      else st \<lparr> frameRequested := False \<rparr>)"

text \<open>The button: \<^verbatim>\<open>onClick={() => setIsAnimating(!isAnimating)}\<close>, then the effect.\<close>

definition togglePlay :: "component \<Rightarrow> component" where
  "togglePlay st = isAnimating_effect (st \<lparr> isAnimating := \<not> isAnimating st \<rparr>)"

subsection \<open>The edit handler\<close>

text \<open>The three call sites pass \<^verbatim>\<open>'normalX'\<close>, \<^verbatim>\<open>'normalY'\<close> and \<^verbatim>\<open>'shearXY'\<close>.\<close>

datatype field = NormalX | NormalY | ShearXY

fun get_field :: "field \<Rightarrow> strains \<Rightarrow> real" where
  "get_field NormalX s = normalX s"
| "get_field NormalY s = normalY s"
| "get_field ShearXY s = shearXY s"

fun set_field :: "field \<Rightarrow> real \<Rightarrow> strains \<Rightarrow> strains" where
  "set_field NormalX v s = s \<lparr> normalX := v \<rparr>"
| "set_field NormalY v s = s \<lparr> normalY := v \<rparr>"
| "set_field ShearXY v s = s \<lparr> shearXY := v \<rparr>"

text \<open>
  \<^verbatim>\<open>
  const handleInputChange = (e, field) => {
    const value = parseFloat(e.target.value);
    setStrains(prev => ({
      ...prev,
      [field]: isNaN(value) ? 0 : value
    }));
  };
  \<close>
  \<^verbatim>\<open>parseFloat\<close> is a built-in of the language, not code of the component: it is the
  parameter \<open>parseFloat\<close>, from the text of the input to \<open>None\<close> for NaN and to
  \<open>Some v\<close> for the number \<open>v\<close>.
\<close>

definition isNaN :: "real option \<Rightarrow> bool" where
  "isNaN v = (v = None)"

definition handleInputChange ::
  "(string \<Rightarrow> real option) \<Rightarrow> string \<Rightarrow> field \<Rightarrow> strains \<Rightarrow> strains" where
  "handleInputChange parseFloat text field prev =
     (let v = parseFloat text
      in set_field field (if isNaN v then 0 else the v) prev)"

subsection \<open>Events\<close>

text \<open>
  What happens to a mounted component: the browser delivers the pending animation frame
  with its timestamp, the user clicks the button, or edits one of the three inputs.
  A frame that is not pending (never requested, or cancelled) is not delivered.
\<close>

datatype event = Frame real | TogglePlay | InputChange field string

fun step :: "(string \<Rightarrow> real option) \<Rightarrow> component \<Rightarrow> event \<Rightarrow> component" where
  "step parseFloat st (Frame timestamp) =
     (if frameRequested st then animate (st \<lparr> frameRequested := False \<rparr>) timestamp else st)"
| "step parseFloat st TogglePlay = togglePlay st"
| "step parseFloat st (InputChange field text) =
     st \<lparr> strains := handleInputChange parseFloat text field (strains st) \<rparr>"

text \<open>Mounting runs the effect once on the initial state.\<close>

definition mounted :: component where
  "mounted = isAnimating_effect initial"

definition run :: "(string \<Rightarrow> real option) \<Rightarrow> event list \<Rightarrow> component" where
  "run parseFloat evs = foldl (step parseFloat) mounted evs"

text \<open>
  The timestamps of the frames of an event sequence, in order.
  \<^verbatim>\<open>requestAnimationFrame\<close> passes each callback the time of its frame, which does not
  decrease from one frame to the next: the sequences the browser produces have sorted
  \<open>frame_times\<close>.
\<close>

fun frame_times :: "event list \<Rightarrow> real list" where
  "frame_times [] = []"
| "frame_times (Frame timestamp # evs) = timestamp # frame_times evs"
| "frame_times (TogglePlay # evs) = frame_times evs"
| "frame_times (InputChange field text # evs) = frame_times evs"

subsection \<open>A parser for plain decimal texts\<close>

text \<open>
  A function to put in the place of the parameter \<open>parseFloat\<close> where a concrete one is
  needed. It reads an optional sign, digits and an optional fraction at the start of the
  text, ignores what follows, and returns the number so written, or \<open>None\<close> where it
  finds no digit. The built-in reads, besides, leading white space, an exponent and
  \<^verbatim>\<open>Infinity\<close>; on texts without these the two agree.
\<close>

definition digit :: "char \<Rightarrow> bool" where
  "digit c = (c \<in> set ''0123456789'')"

definition digits_value :: "string \<Rightarrow> nat" where
  "digits_value ds = foldl (\<lambda>n c. 10 * n + (of_char c - 48)) 0 ds"

definition parseFloat_plain :: "string \<Rightarrow> real option" where
  "parseFloat_plain text =
     (let negative = (case text of c # _ \<Rightarrow> c = CHR ''-'' | [] \<Rightarrow> False);
          signed = (case text of c # _ \<Rightarrow> c = CHR ''-'' \<or> c = CHR ''+'' | [] \<Rightarrow> False);
          body = (if signed then tl text else text);
          whole = takeWhile digit body;
          rest = dropWhile digit body;
          fraction = (case rest of
                        c # r \<Rightarrow> if c = CHR ''.'' then takeWhile digit r else []
                      | [] \<Rightarrow> []);
          magnitude = of_nat (digits_value whole)
                      + of_nat (digits_value fraction) / 10 ^ length fraction
      in if whole = [] \<and> fraction = [] then None
         else Some (if negative then - magnitude else magnitude))"

section \<open>Properties of the geometry\<close>

lemma center_calculateMohrCircle:
  "center (calculateMohrCircle s) = (normalX s + normalY s) / 2"
  by (simp add: calculateMohrCircle_def)

lemma radius_calculateMohrCircle:
  "radius (calculateMohrCircle s) = sqrt (((normalX s - normalY s) / 2) ^ 2 + (shearXY s) ^ 2)"
  by (simp add: calculateMohrCircle_def)

text \<open>Every circle with a non-negative radius is the circle of some strains, so a
  statement about all strains covers every geometry the component can compute.\<close>

lemma calculateMohrCircle_onto:
  assumes "0 \<le> r"
  shows "calculateMohrCircle \<lparr> normalX = c + r, normalY = c - r, shearXY = 0 \<rparr>
         = \<lparr> center = c, radius = r \<rparr>"
  using assms by (simp add: calculateMohrCircle_def)

text \<open>The example of the specification: the strains the component starts with.\<close>

lemma example_radius:
  "radius (calculateMohrCircle \<lparr> normalX = 2.0, normalY = 0.2, shearXY = 0.905 \<rparr>)
     = sqrt (0.9 ^ 2 + 0.905 ^ 2)"
  by (simp add: calculateMohrCircle_def)

lemma example_radius_lower: "(1.27625 :: real) < sqrt (0.9 ^ 2 + 0.905 ^ 2)"
  by (rule real_less_rsqrt) (simp add: power2_eq_square)

lemma example_radius_upper: "sqrt (0.9 ^ 2 + 0.905 ^ 2) < (1.27635 :: real)"
  by (rule real_less_lsqrt) (simp_all add: power2_eq_square)

text \<open>
  C1, as stated, at its example: the radius for \<open>normalX = 2.0\<close>, \<open>normalY = 0.2\<close>,
  \<open>shearXY = 0.905\<close> is said to be about \<open>1.2776\<close>. It is further than \<open>0.001\<close> from
  \<open>1.2776\<close>, so \<open>1.2776\<close> is not its value to the decimals given.
\<close>

theorem example_radius_not_1_2776:
  "\<not> \<bar>radius (calculateMohrCircle \<lparr> normalX = 2.0, normalY = 0.2, shearXY = 0.905 \<rparr>) - 1.2776\<bar>
       < 0.001"
proof -
  define r :: real where "r = sqrt (0.9 ^ 2 + 0.905 ^ 2)"
  have "r < 1.27635"
    unfolding r_def by (rule example_radius_upper)
  then have "\<not> \<bar>r - 1.2776\<bar> < 0.001" by (simp add: abs_less_iff)
  then show ?thesis unfolding example_radius r_def .
qed

text \<open>
  C1, amended: for all strains, \<open>calculateMohrCircle\<close> returns the center
  \<open>(normalX + normalY) / 2\<close> and the radius
  \<open>sqrt (((normalX - normalY) / 2)\<^sup>2 + shearXY\<^sup>2)\<close>; for \<open>normalX = 2.0\<close>, \<open>normalY = 0.2\<close>,
  \<open>shearXY = 0.905\<close> the center is \<open>1.1\<close> and the radius is \<open>sqrt (0.9\<^sup>2 + 0.905\<^sup>2)\<close>, which
  is \<open>1.2763\<close> to four decimals.
\<close>

theorem calculateMohrCircle_value:
  "calculateMohrCircle s =
     \<lparr> center = (normalX s + normalY s) / 2,
       radius = sqrt (((normalX s - normalY s) / 2) ^ 2 + (shearXY s) ^ 2) \<rparr>
   \<and> center (calculateMohrCircle \<lparr> normalX = 2.0, normalY = 0.2, shearXY = 0.905 \<rparr>) = 1.1
   \<and> radius (calculateMohrCircle \<lparr> normalX = 2.0, normalY = 0.2, shearXY = 0.905 \<rparr>)
       = sqrt (0.9 ^ 2 + 0.905 ^ 2)
   \<and> \<bar>radius (calculateMohrCircle \<lparr> normalX = 2.0, normalY = 0.2, shearXY = 0.905 \<rparr>) - 1.2763\<bar>
       < 0.00005"
proof (intro conjI)
  show "calculateMohrCircle s =
     \<lparr> center = (normalX s + normalY s) / 2,
       radius = sqrt (((normalX s - normalY s) / 2) ^ 2 + (shearXY s) ^ 2) \<rparr>"
    by (simp add: calculateMohrCircle_def)
  show "center (calculateMohrCircle \<lparr> normalX = 2.0, normalY = 0.2, shearXY = 0.905 \<rparr>) = 1.1"
    by (simp add: calculateMohrCircle_def)
  show "radius (calculateMohrCircle \<lparr> normalX = 2.0, normalY = 0.2, shearXY = 0.905 \<rparr>)
       = sqrt (0.9 ^ 2 + 0.905 ^ 2)"
    by (rule example_radius)
  show "\<bar>radius (calculateMohrCircle \<lparr> normalX = 2.0, normalY = 0.2, shearXY = 0.905 \<rparr>) - 1.2763\<bar>
       < 0.00005"
  proof -
    define r :: real where "r = sqrt (0.9 ^ 2 + 0.905 ^ 2)"
    have "1.27625 < r" "r < 1.27635"
      unfolding r_def by (rule example_radius_lower, rule example_radius_upper)
    then have "- 0.00005 < r - 1.2763" "r - 1.2763 < 0.00005" by simp_all
    then have "\<bar>r - 1.2763\<bar> < 0.00005" by (simp only: abs_less_iff minus_diff_eq) simp
    then show ?thesis unfolding example_radius r_def .
  qed
qed

text \<open>
  C2: for all strains, hence for every circle the component computes, and every angle,
  \<open>calculateCurrentStrains\<close> returns \<open>normal = center + radius * cos angle\<close> and
  \<open>shear = radius * sin angle\<close>. It is a total function with no error value; where the
  radius is \<open>0\<close> it returns the point \<open>(center, 0)\<close> at every angle.
\<close>

theorem calculateCurrentStrains_value:
  "normal (calculateCurrentStrains s a)
     = center (calculateMohrCircle s) + radius (calculateMohrCircle s) * cos a
   \<and> shear (calculateCurrentStrains s a) = radius (calculateMohrCircle s) * sin a
   \<and> (radius (calculateMohrCircle s) = 0 \<longrightarrow>
        calculateCurrentStrains s a = \<lparr> normal = center (calculateMohrCircle s), shear = 0 \<rparr>)"
  by (simp add: calculateCurrentStrains_def Let_def)

text \<open>C2 at equal normal strains and no shear: the radius is \<open>0\<close> and the point at the
  angle \<open>2\<close> is \<open>(1, 0)\<close>.\<close>

theorem calculateCurrentStrains_value_witness:
  "radius (calculateMohrCircle \<lparr> normalX = 1, normalY = 1, shearXY = 0 \<rparr>) = 0
   \<and> calculateCurrentStrains \<lparr> normalX = 1, normalY = 1, shearXY = 0 \<rparr> 2
       = \<lparr> normal = 1, shear = 0 \<rparr>"
  using calculateCurrentStrains_value [of "\<lparr> normalX = 1, normalY = 1, shearXY = 0 \<rparr>" 2]
  by (simp add: calculateMohrCircle_def)

text \<open>C8: for all strains and every angle, \<open>calculateCurrentStrains\<close> at \<open>angle + 2 * pi\<close>
  equals \<open>calculateCurrentStrains\<close> at \<open>angle\<close>.\<close>

theorem calculateCurrentStrains_periodic:
  "calculateCurrentStrains s (a + 2 * pi) = calculateCurrentStrains s a"
  by (simp add: calculateCurrentStrains_def Let_def)

text \<open>C9: for all strains, negative and fractional ones included, the radius that
  \<open>calculateMohrCircle\<close> returns is at least \<open>0\<close>.\<close>

theorem radius_nonneg: "0 \<le> radius (calculateMohrCircle s)"
  by (simp add: calculateMohrCircle_def)

section \<open>Properties of the remainder\<close>

lemma trunc_frac_bounds: "\<bar>x - of_int (trunc x)\<bar> < 1"
  unfolding trunc_def by (auto; linarith)

lemma trunc_small: "\<bar>x\<bar> < 1 \<Longrightarrow> trunc x = 0"
  unfolding trunc_def by (auto; linarith)

lemma js_rem_frac:
  assumes "0 < d"
  shows "js_rem n d = d * (n / d - of_int (trunc (n / d)))"
  using assms by (simp add: js_rem_def algebra_simps)

text \<open>The remainder is smaller in magnitude than a positive divisor.\<close>

lemma js_rem_bound:
  assumes "0 < d"
  shows "\<bar>js_rem n d\<bar> < d"
proof -
  have "\<bar>js_rem n d\<bar> = d * \<bar>n / d - of_int (trunc (n / d))\<bar>"
    using assms by (simp add: js_rem_frac abs_mult)
  also have "\<dots> < d * 1"
    using assms trunc_frac_bounds [of "n / d"] by (intro mult_strict_left_mono) auto
  finally show ?thesis by simp
qed

text \<open>A dividend smaller in magnitude than the divisor is its own remainder, with its sign.\<close>

lemma js_rem_small:
  assumes "\<bar>n\<bar> < d"
  shows "js_rem n d = n"
proof -
  have "0 < d" using assms by linarith
  then have "\<bar>n / d\<bar> < 1" using assms by simp
  then show ?thesis by (simp add: js_rem_def trunc_small)
qed

lemma js_rem_nonneg:
  assumes "0 < d" "0 \<le> n"
  shows "0 \<le> js_rem n d"
proof -
  have "0 \<le> n / d" using assms by simp
  then have "trunc (n / d) = \<lfloor>n / d\<rfloor>" by (simp add: trunc_def)
  moreover have "0 \<le> n / d - of_int \<lfloor>n / d\<rfloor>" by linarith
  ultimately show ?thesis using assms by (simp add: js_rem_frac)
qed

text \<open>Adding one divisor: back to the dividend when it is non-negative, one divisor
  further when it is negative.\<close>

lemma js_rem_add_period_nonneg:
  assumes "0 \<le> n" "n < d"
  shows "js_rem (n + d) d = n"
proof -
  have d: "0 < d" using assms by linarith
  have "(n + d) / d = n / d + 1" using d by (simp add: field_simps)
  moreover have "0 \<le> n / d" "n / d < 1" using assms d by simp_all
  ultimately have "trunc ((n + d) / d) = 1"
    unfolding trunc_def by (auto; linarith)
  then show ?thesis by (simp add: js_rem_def)
qed

lemma js_rem_add_period_neg:
  assumes "- d < n" "n < 0"
  shows "js_rem (n + d) d = n + d"
  using assms by (intro js_rem_small) linarith

section \<open>Properties of the sweep controller\<close>

subsection \<open>The mounted component\<close>

lemma two_pi_pos: "0 < 2 * pi"
  by simp

lemma mounted_fields:
  "isAnimating mounted" "lastUpdateTimeRef mounted = 0" "frameRequested mounted"
  by (simp_all add: mounted_def isAnimating_effect_def initial_def)

lemma angle_mounted: "angle mounted = - 2.38 * pi / 180"
  by (simp add: mounted_def isAnimating_effect_def initial_def)

lemma angle_mounted_bounds: "- (2 * pi) < angle mounted" "angle mounted < 0"
proof -
  have "0 < pi" by simp
  then show "- (2 * pi) < angle mounted" "angle mounted < 0"
    by (simp_all add: angle_mounted)
qed

lemma angle_mounted_bound: "\<bar>angle mounted\<bar> < 2 * pi"
  using angle_mounted_bounds by (simp add: abs_less_iff)

subsection \<open>Frames\<close>

text \<open>With a recorded timestamp the angle moves by the elapsed time at the fixed rate.\<close>

lemma animate_recorded:
  assumes "isAnimating st" "lastUpdateTimeRef st \<noteq> 0"
  shows "angle (animate st t)
           = js_rem (angle st + ANGLE_PER_MS * (t - lastUpdateTimeRef st)) (2 * pi)"
  using assms by (simp add: animate_def Let_def)

lemma full_period: "ANGLE_PER_MS * 30000 = 2 * pi"
  by (simp add: ANGLE_PER_MS_def CIRCLE_DURATION_def)

text \<open>Without one, the frame only records its timestamp: the change of angle is \<open>0\<close> and
  the remainder gives an angle of less than a turn back.\<close>

lemma animate_first_frame:
  assumes "isAnimating st" "lastUpdateTimeRef st = 0" "\<bar>angle st\<bar> < 2 * pi"
  shows "animate st t = st \<lparr> angle := angle st, lastUpdateTimeRef := t, frameRequested := True \<rparr>"
  using assms by (simp add: animate_def Let_def js_rem_small)

lemma animate_mounted: "animate mounted t = mounted \<lparr> lastUpdateTimeRef := t \<rparr>"
proof -
  have "animate mounted t
        = mounted \<lparr> angle := angle mounted, lastUpdateTimeRef := t, frameRequested := True \<rparr>"
    using mounted_fields(1,2) angle_mounted_bound by (rule animate_first_frame)
  then show ?thesis
    by (simp add: mounted_def isAnimating_effect_def initial_def)
qed

lemma angle_animate_bound:
  assumes "\<bar>angle st\<bar> < 2 * pi"
  shows "\<bar>angle (animate st timestamp)\<bar> < 2 * pi"
  using assms js_rem_bound [OF two_pi_pos] by (simp add: animate_def Let_def)

text \<open>A frame whose timestamp is not before the recorded one does not take the angle
  below a bound \<open>lo\<close> in \<open>(- 2 * pi, 0]\<close> that it respects: the change is not negative,
  and the remainder of a negative dividend above \<open>- 2 * pi\<close> is that dividend.\<close>

lemma angle_animate_range:
  assumes lo: "- (2 * pi) < lo" "lo \<le> 0"
    and a: "lo \<le> angle st" "angle st < 2 * pi"
    and t: "lastUpdateTimeRef st = 0 \<or> lastUpdateTimeRef st \<le> t"
  shows "lo \<le> angle (animate st t) \<and> angle (animate st t) < 2 * pi"
proof (cases "isAnimating st")
  case False
  then show ?thesis using a by (simp add: animate_def)
next
  case True
  define change where
    "change = ANGLE_PER_MS * (t - (if lastUpdateTimeRef st = 0 then t else lastUpdateTimeRef st))"
  define x where "x = angle st + change"
  have "0 \<le> change"
    using t by (auto simp: change_def ANGLE_PER_MS_def CIRCLE_DURATION_def)
  then have x: "lo \<le> x" using a(1) by (simp add: x_def)
  have r: "angle (animate st t) = js_rem x (2 * pi)"
    using True by (simp add: animate_def Let_def change_def x_def)
  have up: "\<bar>js_rem x (2 * pi)\<bar> < 2 * pi"
    by (rule js_rem_bound [OF two_pi_pos])
  have "lo \<le> js_rem x (2 * pi)"
  proof (cases "0 \<le> x")
    case True
    then have "0 \<le> js_rem x (2 * pi)" by (rule js_rem_nonneg [OF two_pi_pos])
    then show ?thesis using lo(2) by simp
  next
    case False
    then have "\<bar>x\<bar> < 2 * pi" using x lo(1) by simp
    then have "js_rem x (2 * pi) = x" by (rule js_rem_small)
    then show ?thesis using x by simp
  qed
  then show ?thesis using up r by simp
qed

lemma lastUpdateTimeRef_animate:
  "lastUpdateTimeRef (animate st t) = (if isAnimating st then t else lastUpdateTimeRef st)"
  by (simp add: animate_def Let_def)

lemma lastUpdateTimeRef_togglePlay:
  "lastUpdateTimeRef (togglePlay st) = 0
   \<or> lastUpdateTimeRef (togglePlay st) = lastUpdateTimeRef st"
  by (simp add: togglePlay_def isAnimating_effect_def)

text \<open>A pending frame of an animating component: the step is \<open>animate\<close>.\<close>

lemma step_frame:
  assumes "frameRequested st" "isAnimating st"
  shows "step pf st (Frame t) = animate st t"
  using assms by (simp add: animate_def Let_def)

lemma angle_after_two_frames:
  "angle (animate (animate mounted 1000) 2000) = - 2.38 * pi / 180 + ANGLE_PER_MS * 1000"
proof -
  have "0 < pi" by simp
  then have s: "\<bar>- 2.38 * pi / 180 + ANGLE_PER_MS * 1000\<bar> < 2 * pi"
    by (simp add: ANGLE_PER_MS_def CIRCLE_DURATION_def abs_less_iff)
  have "angle (animate (animate mounted 1000) 2000)
        = js_rem (- 2.38 * pi / 180 + ANGLE_PER_MS * 1000) (2 * pi)"
    by (simp add: animate_mounted animate_recorded mounted_fields angle_mounted)
  also have "\<dots> = - 2.38 * pi / 180 + ANGLE_PER_MS * 1000"
    using s by (rule js_rem_small)
  finally show ?thesis .
qed

subsection \<open>Invariants of the reachable states\<close>

lemma angle_isAnimating_effect: "angle (isAnimating_effect st) = angle st"
  by (simp add: isAnimating_effect_def)

lemma angle_togglePlay: "angle (togglePlay st) = angle st"
  by (simp add: togglePlay_def angle_isAnimating_effect)

lemma angle_step_bound:
  assumes "\<bar>angle st\<bar> < 2 * pi"
  shows "\<bar>angle (step pf st ev)\<bar> < 2 * pi"
  using assms by (cases ev) (simp_all add: angle_animate_bound angle_togglePlay)

lemma angle_foldl_bound:
  assumes "\<bar>angle st\<bar> < 2 * pi"
  shows "\<bar>angle (foldl (step pf) st evs)\<bar> < 2 * pi"
  using assms by (induction evs arbitrary: st) (simp_all add: angle_step_bound)

lemma angle_run_bound: "\<bar>angle (run pf evs)\<bar> < 2 * pi"
  unfolding run_def using angle_mounted_bound by (rule angle_foldl_bound)

text \<open>A frame is pending exactly while the component is animating: the closure
  \<^verbatim>\<open>animate\<close> is only ever called where \<^verbatim>\<open>isAnimating\<close> holds.\<close>

lemma frameRequested_step:
  assumes "frameRequested st = isAnimating st"
  shows "frameRequested (step pf st ev) = isAnimating (step pf st ev)"
  using assms
  by (cases ev) (auto simp: animate_def Let_def togglePlay_def isAnimating_effect_def)

lemma frameRequested_foldl:
  assumes "frameRequested st = isAnimating st"
  shows "frameRequested (foldl (step pf) st evs) = isAnimating (foldl (step pf) st evs)"
  using assms by (induction evs arbitrary: st) (simp_all add: frameRequested_step)

lemma frameRequested_isAnimating: "frameRequested (run pf evs) = isAnimating (run pf evs)"
  unfolding run_def
  by (rule frameRequested_foldl) (simp add: mounted_fields)

lemma run_snoc: "run pf (evs @ [ev]) = step pf (run pf evs) ev"
  by (simp add: run_def)

lemma run_snoc2: "run pf (evs @ [e1, e2]) = step pf (step pf (run pf evs) e1) e2"
  by (simp add: run_def)

lemma run_frame_pause:
  "run pf [Frame t0, TogglePlay]
   = mounted \<lparr> isAnimating := False, lastUpdateTimeRef := t0, frameRequested := False \<rparr>"
proof -
  have "animate (mounted \<lparr> frameRequested := False \<rparr>) t0 = mounted \<lparr> lastUpdateTimeRef := t0 \<rparr>"
    using animate_mounted [of t0]
    by (simp add: animate_def Let_def mounted_def isAnimating_effect_def initial_def)
  then show ?thesis
    by (simp add: run_def mounted_fields togglePlay_def isAnimating_effect_def)
qed

lemma run_append: "run pf (evs @ evs') = foldl (step pf) (run pf evs) evs'"
  by (simp add: run_def)

lemma run_two_frames: "run pf [Frame t0, Frame t1] = animate (animate mounted t0) t1"
proof -
  have 1: "step pf mounted (Frame t0) = animate mounted t0"
    using mounted_fields(3,1) by (rule step_frame)
  have 2: "step pf (animate mounted t0) (Frame t1) = animate (animate mounted t0) t1"
    by (rule step_frame) (simp_all add: animate_mounted mounted_fields)
  show ?thesis by (simp only: run_def foldl.simps 1 2)
qed

lemma frame_times_append: "frame_times (evs @ evs') = frame_times evs @ frame_times evs'"
  by (induction evs rule: frame_times.induct) simp_all

text \<open>The recorded timestamp is \<open>0\<close>, the one at the start, or that of a frame since.\<close>

lemma lastUpdateTimeRef_foldl:
  "lastUpdateTimeRef (foldl (step pf) st evs) = 0
   \<or> lastUpdateTimeRef (foldl (step pf) st evs) = lastUpdateTimeRef st
   \<or> lastUpdateTimeRef (foldl (step pf) st evs) \<in> set (frame_times evs)"
proof (induction evs arbitrary: st rule: frame_times.induct)
  case 1
  then show ?case by simp
next
  case (2 timestamp evs)
  show ?case
    using "2.IH" [of "step pf st (Frame timestamp)"]
    by (auto simp: lastUpdateTimeRef_animate split: if_splits)
next
  case (3 evs)
  show ?case
    using "3.IH" [of "togglePlay st"] lastUpdateTimeRef_togglePlay [of st] by auto
next
  case (4 fld input evs)
  show ?case
    using "4.IH" [of "st \<lparr> strains := handleInputChange pf input fld (strains st) \<rparr>"]
    by simp
qed

text \<open>Under frames with sorted timestamps, none before the recorded one, the angle
  stays between a bound \<open>lo\<close> in \<open>(- 2 * pi, 0]\<close> that it respects and \<open>2 * pi\<close>.\<close>

lemma angle_foldl_range:
  assumes "- (2 * pi) < lo" "lo \<le> 0"
    and "sorted (frame_times evs)"
    and "lastUpdateTimeRef st = 0 \<or> (\<forall>t\<in>set (frame_times evs). lastUpdateTimeRef st \<le> t)"
    and "lo \<le> angle st" "angle st < 2 * pi"
  shows "lo \<le> angle (foldl (step pf) st evs) \<and> angle (foldl (step pf) st evs) < 2 * pi"
  using assms(3-)
proof (induction evs arbitrary: st rule: frame_times.induct)
  case 1
  then show ?case by simp
next
  case (2 timestamp evs)
  define st' where "st' = step pf st (Frame timestamp)"
  have s: "sorted (frame_times evs)" "\<forall>t\<in>set (frame_times evs). timestamp \<le> t"
    using "2.prems"(1) by simp_all
  have l: "lastUpdateTimeRef st = 0 \<or> lastUpdateTimeRef st \<le> timestamp"
    using "2.prems"(2) by auto
  have "lo \<le> angle st' \<and> angle st' < 2 * pi"
    using angle_animate_range [OF assms(1,2), of "st \<lparr> frameRequested := False \<rparr>" timestamp]
      "2.prems"(3,4) l
    by (simp add: st'_def)
  moreover
  have "lastUpdateTimeRef st' = 0 \<or> (\<forall>t\<in>set (frame_times evs). lastUpdateTimeRef st' \<le> t)"
    using s(2) "2.prems"(2) by (auto simp: st'_def lastUpdateTimeRef_animate)
  ultimately
  have "lo \<le> angle (foldl (step pf) st' evs) \<and> angle (foldl (step pf) st' evs) < 2 * pi"
    using "2.IH" [OF s(1)] by blast
  then show ?case by (simp add: st'_def)
next
  case (3 evs)
  have "lastUpdateTimeRef (togglePlay st) = 0
        \<or> (\<forall>t\<in>set (frame_times evs). lastUpdateTimeRef (togglePlay st) \<le> t)"
    using "3.prems"(2) lastUpdateTimeRef_togglePlay [of st] by auto
  then show ?case
    using "3.IH" [of "togglePlay st"] "3.prems" by (simp add: angle_togglePlay)
next
  case (4 fld input evs)
  show ?case
    using "4.IH" [of "st \<lparr> strains := handleInputChange pf input fld (strains st) \<rparr>"]
      "4.prems"
    by simp
qed

subsection \<open>The range of the angle\<close>

text \<open>
  C3, as stated: the stored angle lies in \<open>[0, 2 * pi)\<close> after initialization and after
  every frame. It is negative in the mounted component, and still negative after the
  frames at 1000 ms and 1016 ms.
\<close>

theorem angle_range_counterexample:
  "\<not> (0 \<le> angle mounted \<and> angle mounted < 2 * pi)
   \<and> \<not> (0 \<le> angle (animate (animate mounted 1000) 1016)
         \<and> angle (animate (animate mounted 1000) 1016) < 2 * pi)"
proof -
  have "0 < pi" by simp
  then have s: "\<bar>- 2.38 * pi / 180 + ANGLE_PER_MS * 16\<bar> < 2 * pi"
               "- 2.38 * pi / 180 + ANGLE_PER_MS * 16 < 0"
    by (simp_all add: ANGLE_PER_MS_def CIRCLE_DURATION_def abs_less_iff)
  have "angle (animate (animate mounted 1000) 1016)
        = js_rem (- 2.38 * pi / 180 + ANGLE_PER_MS * 16) (2 * pi)"
    by (simp add: animate_mounted animate_recorded mounted_fields angle_mounted)
  also have "\<dots> = - 2.38 * pi / 180 + ANGLE_PER_MS * 16"
    using s(1) by (rule js_rem_small)
  finally have "angle (animate (animate mounted 1000) 1016) < 0"
    using s(2) by simp
  moreover have "angle mounted < 0"
    by (rule angle_mounted_bounds)
  ultimately show ?thesis by simp
qed

text \<open>
  C3, amended: in every state the component reaches from mounting, by clicks, edits and
  frames whose timestamps do not decrease, the stored angle lies in
  \<open>[- 2.38 * pi / 180, 2 * pi)\<close>, from the initial \<open>-2.38\<close> degrees up; and from a state
  where it is not negative on, it lies in \<open>[0, 2 * pi)\<close>.
\<close>

theorem angle_range:
  assumes "sorted (frame_times (evs @ evs'))"
  shows "- 2.38 * pi / 180 \<le> angle (run pf evs) \<and> angle (run pf evs) < 2 * pi
       \<and> (0 \<le> angle (run pf evs) \<longrightarrow>
            0 \<le> angle (run pf (evs @ evs')) \<and> angle (run pf (evs @ evs')) < 2 * pi)"
proof -
  have s: "sorted (frame_times evs)" "sorted (frame_times evs')"
    "\<forall>x\<in>set (frame_times evs). \<forall>y\<in>set (frame_times evs'). x \<le> y"
    using assms by (simp_all add: frame_times_append sorted_append)
  have lo: "- (2 * pi) < angle mounted" "angle mounted \<le> 0"
    using angle_mounted_bounds by simp_all
  have 1: "angle mounted \<le> angle (run pf evs) \<and> angle (run pf evs) < 2 * pi"
    unfolding run_def
  proof (rule angle_foldl_range [OF lo s(1)])
    show "lastUpdateTimeRef mounted = 0
          \<or> (\<forall>t\<in>set (frame_times evs). lastUpdateTimeRef mounted \<le> t)"
      by (simp add: mounted_fields)
    show "angle mounted \<le> angle mounted" by simp
    show "angle mounted < 2 * pi" using lo(2) two_pi_pos by linarith
  qed
  have l: "lastUpdateTimeRef (run pf evs) = 0
           \<or> (\<forall>t\<in>set (frame_times evs'). lastUpdateTimeRef (run pf evs) \<le> t)"
    using lastUpdateTimeRef_foldl [of pf mounted evs] s(3)
    by (auto simp: run_def mounted_fields)
  have 2: "0 \<le> angle (run pf (evs @ evs')) \<and> angle (run pf (evs @ evs')) < 2 * pi"
    if "0 \<le> angle (run pf evs)"
    unfolding run_append
  proof (rule angle_foldl_range [OF _ _ s(2) l that])
    show "- (2 * pi) < 0" by simp
    show "(0 :: real) \<le> 0" by simp
    show "angle (run pf evs) < 2 * pi" using 1 by simp
  qed
  show ?thesis using 1 2 by (simp add: angle_mounted)
qed

text \<open>C3, amended, on two executions. After the frames at 1000 ms and 1016 ms the angle
  is still negative, and not below the initial one. After the frames at 1000 ms and
  2000 ms it is not negative, and it is in \<open>[0, 2 * pi)\<close> after a pause, a resume and a
  frame at 90000 ms.\<close>

theorem angle_range_witness:
  "sorted (frame_times ([Frame 1000, Frame 1016] @ []))
   \<and> - 2.38 * pi / 180 \<le> angle (run parseFloat_plain [Frame 1000, Frame 1016])
   \<and> angle (run parseFloat_plain [Frame 1000, Frame 1016]) < 2 * pi
   \<and> sorted (frame_times ([Frame 1000, Frame 2000] @ [TogglePlay, TogglePlay, Frame 90000]))
   \<and> 0 \<le> angle (run parseFloat_plain [Frame 1000, Frame 2000])
   \<and> 0 \<le> angle (run parseFloat_plain
                  ([Frame 1000, Frame 2000] @ [TogglePlay, TogglePlay, Frame 90000]))
   \<and> angle (run parseFloat_plain
              ([Frame 1000, Frame 2000] @ [TogglePlay, TogglePlay, Frame 90000])) < 2 * pi"
proof -
  have a: "sorted (frame_times ([Frame 1000, Frame 1016] @ []))"
    by simp
  have b: "sorted (frame_times ([Frame 1000, Frame 2000] @ [TogglePlay, TogglePlay, Frame 90000]))"
    by simp
  have "0 < pi" by simp
  then have "0 \<le> - 2.38 * pi / 180 + ANGLE_PER_MS * 1000"
    by (simp add: ANGLE_PER_MS_def CIRCLE_DURATION_def)
  then have c: "0 \<le> angle (run parseFloat_plain [Frame 1000, Frame 2000])"
    by (simp only: run_two_frames angle_after_two_frames)
  show ?thesis
    using angle_range [OF a, of parseFloat_plain] angle_range [OF b, of parseFloat_plain] a b c
    by (simp only: append_Nil2)
qed

subsection \<open>The rate of the sweep\<close>

text \<open>
  C4, as stated: a frame 30000 ms after the recorded one returns the angle to its
  starting value. After the first frame at 1 ms the angle is the initial \<open>-2.38\<close> degrees;
  the frame at 30001 ms stores that angle plus \<open>2 * pi\<close>, not that angle.
\<close>

theorem full_period_counterexample:
  "isAnimating (animate mounted 1)
   \<and> lastUpdateTimeRef (animate mounted 1) = 1
   \<and> angle (animate mounted 1) = - 2.38 * pi / 180
   \<and> angle (animate (animate mounted 1) 30001) = - 2.38 * pi / 180 + 2 * pi
   \<and> angle (animate (animate mounted 1) 30001) \<noteq> angle (animate mounted 1)"
proof -
  have b: "- (2 * pi) < - 2.38 * pi / 180" "- 2.38 * pi / 180 < 0"
    using angle_mounted_bounds by (simp_all add: angle_mounted)
  have "angle (animate (animate mounted 1) 30001)
        = js_rem (- 2.38 * pi / 180 + 2 * pi) (2 * pi)"
    by (simp add: animate_mounted animate_recorded mounted_fields angle_mounted full_period)
  also have "\<dots> = - 2.38 * pi / 180 + 2 * pi"
    using b by (rule js_rem_add_period_neg)
  finally have a: "angle (animate (animate mounted 1) 30001) = - 2.38 * pi / 180 + 2 * pi" .
  have m: "angle (animate mounted 1) = - 2.38 * pi / 180"
    by (simp add: animate_mounted angle_mounted)
  have "angle (animate (animate mounted 1) 30001) \<noteq> angle (animate mounted 1)"
    unfolding a m by simp
  then show ?thesis
    using a m by (simp add: animate_mounted mounted_fields)
qed

text \<open>
  C4, amended: for every frame while animating with a recorded timestamp, the new angle
  is the remainder by \<open>2 * pi\<close> of the old angle plus \<open>deltaMs * (2 * pi / 30000)\<close>.
  With \<open>deltaMs = 30000\<close> the advance is exactly \<open>2 * pi\<close>; the stored angle then returns
  to its starting value when that value is in \<open>[0, 2 * pi)\<close>, and becomes the starting
  value plus \<open>2 * pi\<close> when that value is in \<open>(- 2 * pi, 0)\<close>.
\<close>

theorem animate_rate:
  assumes "isAnimating st" "lastUpdateTimeRef st \<noteq> 0"
  shows "angle (animate st t)
           = js_rem (angle st + (t - lastUpdateTimeRef st) * (2 * pi / 30000)) (2 * pi)
       \<and> (t - lastUpdateTimeRef st = 30000 \<longrightarrow>
            (t - lastUpdateTimeRef st) * (2 * pi / 30000) = 2 * pi
          \<and> (0 \<le> angle st \<and> angle st < 2 * pi \<longrightarrow> angle (animate st t) = angle st)
          \<and> (- (2 * pi) < angle st \<and> angle st < 0 \<longrightarrow>
               angle (animate st t) = angle st + 2 * pi))"
proof -
  have a: "angle (animate st t)
           = js_rem (angle st + (t - lastUpdateTimeRef st) * (2 * pi / 30000)) (2 * pi)"
    using assms
    by (simp add: animate_recorded ANGLE_PER_MS_def CIRCLE_DURATION_def mult.commute)
  moreover have "(30000 :: real) * (2 * pi / 30000) = 2 * pi" by simp
  ultimately show ?thesis
    by (auto simp: js_rem_add_period_nonneg js_rem_add_period_neg)
qed

text \<open>C4, amended, at two states the component reaches: after the frames at 1000 ms and
  2000 ms the angle is positive and the frame at 32000 ms returns to it; after the frame
  at 1 ms the angle is negative and the frame at 30001 ms adds \<open>2 * pi\<close> to it.\<close>

theorem animate_rate_witness:
  "isAnimating (animate (animate mounted 1000) 2000)
   \<and> lastUpdateTimeRef (animate (animate mounted 1000) 2000) \<noteq> 0
   \<and> 32000 - lastUpdateTimeRef (animate (animate mounted 1000) 2000) = 30000
   \<and> 0 \<le> angle (animate (animate mounted 1000) 2000)
   \<and> angle (animate (animate mounted 1000) 2000) < 2 * pi
   \<and> angle (animate (animate (animate mounted 1000) 2000) 32000)
       = angle (animate (animate mounted 1000) 2000)
   \<and> isAnimating (animate mounted 1) \<and> lastUpdateTimeRef (animate mounted 1) \<noteq> 0
   \<and> 30001 - lastUpdateTimeRef (animate mounted 1) = 30000
   \<and> - (2 * pi) < angle (animate mounted 1) \<and> angle (animate mounted 1) < 0
   \<and> angle (animate (animate mounted 1) 30001) = angle (animate mounted 1) + 2 * pi"
proof -
  define st where "st = animate (animate mounted 1000) 2000"
  have "0 < pi" by simp
  then have s: "\<bar>- 2.38 * pi / 180 + ANGLE_PER_MS * 1000\<bar> < 2 * pi"
               "0 \<le> - 2.38 * pi / 180 + ANGLE_PER_MS * 1000"
    by (simp_all add: ANGLE_PER_MS_def CIRCLE_DURATION_def abs_less_iff)
  have "angle st = js_rem (- 2.38 * pi / 180 + ANGLE_PER_MS * 1000) (2 * pi)"
    by (simp add: st_def animate_mounted animate_recorded mounted_fields angle_mounted)
  also have "\<dots> = - 2.38 * pi / 180 + ANGLE_PER_MS * 1000"
    using s(1) by (rule js_rem_small)
  finally have g: "0 \<le> angle st \<and> angle st < 2 * pi"
    using s by (simp add: abs_less_iff)
  have a: "isAnimating st" "lastUpdateTimeRef st \<noteq> 0" "32000 - lastUpdateTimeRef st = 30000"
    by (simp_all add: st_def animate_mounted animate_def Let_def mounted_fields)
  have b: "isAnimating (animate mounted 1)" "lastUpdateTimeRef (animate mounted 1) \<noteq> 0"
    "30001 - lastUpdateTimeRef (animate mounted 1) = 30000"
    "- (2 * pi) < angle (animate mounted 1) \<and> angle (animate mounted 1) < 0"
    using angle_mounted_bounds
    by (simp_all add: animate_mounted mounted_fields)
  show ?thesis
    unfolding st_def [symmetric]
    using animate_rate [OF a(1,2), of 32000] animate_rate [OF b(1,2), of 30001] a b g
    by blast
qed

subsection \<open>Resuming after a pause\<close>

text \<open>
  C5: for every execution that ends paused, the click that resumes resets the recorded
  timestamp to \<open>0\<close>, and the frame that follows, with any timestamp \<open>t\<close>, records \<open>t\<close>
  and leaves the angle as it was before the click: the time paused is not added.
\<close>

theorem resume_first_frame:
  assumes "\<not> isAnimating (run pf evs)"
  shows "isAnimating (run pf (evs @ [TogglePlay]))
       \<and> lastUpdateTimeRef (run pf (evs @ [TogglePlay])) = 0
       \<and> lastUpdateTimeRef (run pf (evs @ [TogglePlay, Frame t])) = t
       \<and> angle (run pf (evs @ [TogglePlay, Frame t])) = angle (run pf evs)"
proof -
  define st where "st = run pf evs"
  have b: "\<bar>angle st\<bar> < 2 * pi"
    unfolding st_def by (rule angle_run_bound)
  have p: "\<not> isAnimating st" using assms by (simp add: st_def)
  have t: "togglePlay st
           = st \<lparr> isAnimating := True, lastUpdateTimeRef := 0, frameRequested := True \<rparr>"
    using p by (simp add: togglePlay_def isAnimating_effect_def)
  have f: "step pf (togglePlay st) (Frame t)
           = st \<lparr> isAnimating := True, lastUpdateTimeRef := t, frameRequested := True \<rparr>"
    using b by (simp add: t animate_first_frame)
  show ?thesis
    unfolding run_snoc run_snoc2 st_def [symmetric] step.simps(2) f
    by (simp add: t)
qed

text \<open>C5 on the execution: first frame at 1000 ms, pause, resume, frame a minute later
  at 61000 ms. The angle is still the initial one.\<close>

theorem resume_first_frame_witness:
  "\<not> isAnimating (run parseFloat_plain [Frame 1000, TogglePlay])
   \<and> lastUpdateTimeRef (run parseFloat_plain [Frame 1000, TogglePlay]) = 1000
   \<and> isAnimating (run parseFloat_plain [Frame 1000, TogglePlay, TogglePlay])
   \<and> lastUpdateTimeRef (run parseFloat_plain [Frame 1000, TogglePlay, TogglePlay]) = 0
   \<and> lastUpdateTimeRef (run parseFloat_plain [Frame 1000, TogglePlay, TogglePlay, Frame 61000])
       = 61000
   \<and> angle (run parseFloat_plain [Frame 1000, TogglePlay, TogglePlay, Frame 61000])
       = - 2.38 * pi / 180"
proof -
  have p: "\<not> isAnimating (run parseFloat_plain [Frame 1000, TogglePlay])"
    by (simp add: run_frame_pause)
  show ?thesis
    using resume_first_frame [OF p, of 61000] p
    by (simp add: run_frame_pause angle_mounted)
qed

subsection \<open>The timestamp zero\<close>

text \<open>
  C10: \<open>0\<close> in \<^verbatim>\<open>lastUpdateTimeRef\<close> stands for no recorded timestamp. While animating,
  a frame with timestamp \<open>0\<close> leaves \<open>0\<close> there, and the next frame, with any timestamp
  \<open>t\<close>, is treated as a first frame again: it records \<open>t\<close> and does not move the angle.
\<close>

theorem animate_timestamp_zero:
  assumes "isAnimating st"
  shows "lastUpdateTimeRef (animate st 0) = 0
       \<and> lastUpdateTimeRef (animate (animate st 0) t) = t
       \<and> angle (animate (animate st 0) t) = angle (animate st 0)"
proof -
  define st1 where "st1 = animate st 0"
  have 1: "isAnimating st1" "lastUpdateTimeRef st1 = 0"
    using assms by (simp_all add: st1_def animate_def Let_def)
  have "\<bar>angle st1\<bar> < 2 * pi"
    using assms js_rem_bound [OF two_pi_pos] by (simp add: st1_def animate_def Let_def)
  then have "animate st1 t
             = st1 \<lparr> angle := angle st1, lastUpdateTimeRef := t, frameRequested := True \<rparr>"
    using 1 by (intro animate_first_frame)
  then show ?thesis using 1 by (simp add: st1_def [symmetric])
qed

text \<open>C10 on the mounted component: a first frame at 0 ms, then a frame at 5000 ms.\<close>

theorem animate_timestamp_zero_witness:
  "isAnimating mounted
   \<and> lastUpdateTimeRef (animate mounted 0) = 0
   \<and> lastUpdateTimeRef (animate (animate mounted 0) 5000) = 5000
   \<and> angle (animate (animate mounted 0) 5000) = angle (animate mounted 0)"
  using animate_timestamp_zero [of mounted 5000] by (simp add: mounted_fields)

section \<open>Properties of the edit handler\<close>

lemma parseFloat_plain_abc: "parseFloat_plain ''abc'' = None"
  by (simp add: parseFloat_plain_def digit_def)

lemma parseFloat_plain_3_5: "parseFloat_plain ''3.5'' = Some 3.5"
  by (simp add: parseFloat_plain_def digit_def digits_value_def)

text \<open>
  C6: for every edit of a strain field the text is given to \<open>parseFloat\<close>; where that
  returns NaN the field becomes \<open>0\<close>, and where it returns a number the field becomes that
  number. The handler is a total function with no error value. So \<^verbatim>\<open>"abc"\<close> gives \<open>0\<close>
  and \<^verbatim>\<open>"3.5"\<close> gives \<open>3.5\<close> with any \<open>parseFloat\<close> that returns NaN on the one and
  \<open>3.5\<close> on the other.
\<close>

theorem handleInputChange_value:
  "(parseFloat text = None \<longrightarrow>
      get_field field (handleInputChange parseFloat text field prev) = 0)
   \<and> (parseFloat text = Some v \<longrightarrow>
      get_field field (handleInputChange parseFloat text field prev) = v)"
  by (cases field) (simp_all add: handleInputChange_def isNaN_def Let_def)

text \<open>C6 with the parser for plain decimal texts, on \<^verbatim>\<open>"abc"\<close> and \<^verbatim>\<open>"3.5"\<close>.\<close>

theorem handleInputChange_value_witness:
  "parseFloat_plain ''abc'' = None
   \<and> get_field NormalY (handleInputChange parseFloat_plain ''abc'' NormalY initial_strains) = 0
   \<and> parseFloat_plain ''3.5'' = Some 3.5
   \<and> get_field NormalY (handleInputChange parseFloat_plain ''3.5'' NormalY initial_strains) = 3.5"
proof -
  have "get_field NormalY (handleInputChange parseFloat_plain ''abc'' NormalY initial_strains) = 0"
    using handleInputChange_value [of parseFloat_plain "''abc''" NormalY initial_strains]
          parseFloat_plain_abc
    by blast
  moreover
  have "get_field NormalY (handleInputChange parseFloat_plain ''3.5'' NormalY initial_strains) = 3.5"
    using handleInputChange_value [of parseFloat_plain "''3.5''" NormalY initial_strains "3.5"]
          parseFloat_plain_3_5
    by blast
  ultimately show ?thesis
    using parseFloat_plain_abc parseFloat_plain_3_5 by blast
qed

text \<open>
  C7: for every edit of one strain field, whatever the text and the strains before, the
  two other fields have the values they had before.
\<close>

theorem handleInputChange_others:
  assumes "other \<noteq> field"
  shows "get_field other (handleInputChange parseFloat text field prev) = get_field other prev"
  using assms by (cases field; cases other) (simp_all add: handleInputChange_def Let_def)

text \<open>C7 on an edit of \<^verbatim>\<open>shearXY\<close> in the initial strains: the normal strains stay \<open>2\<close>
  and \<open>0.2\<close>.\<close>

theorem handleInputChange_others_witness:
  "NormalX \<noteq> ShearXY \<and> NormalY \<noteq> ShearXY
   \<and> get_field NormalX (handleInputChange parseFloat_plain ''3.5'' ShearXY initial_strains) = 2
   \<and> get_field NormalY (handleInputChange parseFloat_plain ''3.5'' ShearXY initial_strains) = 0.2"
  using handleInputChange_others [of NormalX ShearXY parseFloat_plain "''3.5''" initial_strains]
        handleInputChange_others [of NormalY ShearXY parseFloat_plain "''3.5''" initial_strains]
  by (simp add: initial_strains_def)

end
